theory Spec2Isabelle
  imports Main "HOL-Library.AList"
begin

section \<open>Python strings\<close>

text \<open>
  A Python \<open>str\<close> is modelled as a \<open>string\<close>: the list of the bytes of its UTF-8
  encoding. On ASCII text this is the list of its characters. The case mappings
  \<open>lower\<close> and \<open>capitalize\<close> below act on the ASCII letters and leave every other
  byte as it is; they serve the language directory, whose codes and names are ASCII.
  \<open>strip\<close> removes the ASCII white space of \<open>str.isspace\<close>. The search of the history
  meets any text; for it \<open>str.lower\<close> is modelled on code points further below.
\<close>

definition is_space :: "char \<Rightarrow> bool" where
  "is_space c = (let n = (of_char c :: nat) in (9 \<le> n \<and> n \<le> 13) \<or> (28 \<le> n \<and> n \<le> 32))"

definition strip :: "string \<Rightarrow> string" where
  "strip s = rev (dropWhile is_space (rev (dropWhile is_space s)))"

definition lower_char :: "char \<Rightarrow> char" where
  "lower_char c = (let n = (of_char c :: nat) in if 65 \<le> n \<and> n \<le> 90 then char_of (n + 32) else c)"

definition upper_char :: "char \<Rightarrow> char" where
  "upper_char c = (let n = (of_char c :: nat) in if 97 \<le> n \<and> n \<le> 122 then char_of (n - 32) else c)"

definition lower :: "string \<Rightarrow> string" where
  "lower s = map lower_char s"

fun capitalize :: "string \<Rightarrow> string" where
  "capitalize [] = []"
| "capitalize (c # cs) = upper_char c # lower cs"



subsection \<open>Code points and \<open>str.lower\<close>\<close>

text \<open>
  The code points of a text, read from its UTF-8 bytes: \<open>utf8 acc k\<close> has read the
  value \<open>acc\<close> of a code point of which \<open>k\<close> bytes are still to come.
\<close>

fun utf8 :: "nat \<Rightarrow> nat \<Rightarrow> string \<Rightarrow> nat list" where
  "utf8 acc k [] = []"
| "utf8 acc k (c # cs) =
     (let b = (of_char c :: nat) in
      if k = 0 then
        (if b < 0x80 then b # utf8 0 0 cs
         else if b < 0xE0 then utf8 (b - 0xC0) 1 cs
         else if b < 0xF0 then utf8 (b - 0xE0) 2 cs
         else utf8 (b - 0xF0) 3 cs)
      else
        (let v = acc * 64 + (b - 0x80) in
         if k = 1 then v # utf8 0 0 cs else utf8 v (k - 1) cs))"

definition decode :: "string \<Rightarrow> nat list" where
  "decode s = utf8 0 0 s"

text \<open>
  The character database of Unicode, which CPython's \<open>str.lower\<close> reads through
  \<open>_PyUnicode_ToLowerFull\<close>, \<open>_PyUnicode_IsCased\<close> and \<open>_PyUnicode_IsCaseIgnorable\<close>.
  It is not among the sources: beyond ASCII it is a parameter, on ASCII its values are
  written out (the letters, and the five case-ignorable characters: apostrophe, full
  stop, colon, circumflex and grave accent).
\<close>

record unicode_database =
  db_lower :: "nat \<Rightarrow> nat list"
  db_cased :: "nat \<Rightarrow> bool"
  db_case_ignorable :: "nat \<Rightarrow> bool"

definition ascii_lower :: "nat \<Rightarrow> nat" where
  "ascii_lower c = (if 65 \<le> c \<and> c \<le> 90 then c + 32 else c)"

definition to_lower_full :: "unicode_database \<Rightarrow> nat \<Rightarrow> nat list" where
  "to_lower_full U c = (if c < 128 then [ascii_lower c] else db_lower U c)"

definition is_cased :: "unicode_database \<Rightarrow> nat \<Rightarrow> bool" where
  "is_cased U c =
     (if c < 128 then (65 \<le> c \<and> c \<le> 90) \<or> (97 \<le> c \<and> c \<le> 122) else db_cased U c)"

definition is_case_ignorable :: "unicode_database \<Rightarrow> nat \<Rightarrow> bool" where
  "is_case_ignorable U c =
     (if c < 128 then c \<in> set [0x27, 0x2E, 0x3A, 0x5E, 0x60] else db_case_ignorable U c)"

text \<open>
  \<open>str.lower\<close> as CPython computes it. An ASCII text is lowered letter by letter. In any
  other text the character at each position is replaced by its lowercase of the
  database, but for the Greek capital sigma U+03A3: it becomes the final small sigma
  U+03C2 when the nearest character before it that is not case-ignorable is cased and
  the nearest such character after it is absent or not cased, and the small sigma U+03C3
  otherwise.
\<close>

definition handle_capital_sigma :: "unicode_database \<Rightarrow> nat list \<Rightarrow> nat \<Rightarrow> nat" where
  "handle_capital_sigma U s i =
     (let final_sigma =
            (case dropWhile (is_case_ignorable U) (rev (take i s)) of
               [] \<Rightarrow> False
             | c # cs \<Rightarrow> is_cased U c) \<and>
            (case dropWhile (is_case_ignorable U) (drop (Suc i) s) of
               [] \<Rightarrow> True
             | c # cs \<Rightarrow> \<not> is_cased U c)
      in if final_sigma then 0x3C2 else 0x3C3)"

definition lower_ucs4 :: "unicode_database \<Rightarrow> nat list \<Rightarrow> nat \<Rightarrow> nat list" where
  "lower_ucs4 U s i =
     (let c = s ! i in if c = 0x3A3 then [handle_capital_sigma U s i] else to_lower_full U c)"

definition do_lower :: "unicode_database \<Rightarrow> nat list \<Rightarrow> nat list" where
  "do_lower U s = concat (map (lower_ucs4 U s) [0..<length s])"

definition str_lower :: "unicode_database \<Rightarrow> nat list \<Rightarrow> nat list" where
  "str_lower U s = (if list_all (\<lambda>c. c < 128) s then map ascii_lower s else do_lower U s)"

text \<open>The symbols that open the status messages, as UTF-8.\<close>

definition sparkles :: string where
  "sparkles = [CHR 0xE2, CHR 0x9C, CHR 0xA8]"

definition check_mark :: string where
  "check_mark = [CHR 0xE2, CHR 0x9C, CHR 0x85]"

definition cross_mark :: string where
  "cross_mark = [CHR 0xE2, CHR 0x9D, CHR 0x8C]"

definition question_mark :: string where
  "question_mark = [CHR 0xE2, CHR 0x9D, CHR 0x93]"

definition microphone :: string where
  "microphone = [CHR 0xF0, CHR 0x9F, CHR 0x8E, CHR 0x99, CHR 0xEF, CHR 0xB8, CHR 0x8F]"

definition arrows :: string where
  "arrows = [CHR 0xF0, CHR 0x9F, CHR 0x94, CHR 0x84]"

definition stop_sign :: string where
  "stop_sign = [CHR 0xF0, CHR 0x9F, CHR 0x9B, CHR 0x91]"

section \<open>The session state of app.py\<close>

record settings =
  max_history :: int
  speech_timeout :: int
  theme :: string
  show_stats :: bool

text \<open>The dict stored under \<open>'translated_text'\<close> after a translation.\<close>

record translation_result =
  res_original :: string
  res_translation :: string
  res_from_lang :: string
  res_to_lang :: string

text \<open>A dict of \<open>conversation_history\<close>; only the text path writes \<open>'input_type'\<close>.\<close>

record history_entry =
  timestamp :: string
  original :: string
  translation :: string
  from_lang :: string
  to_lang :: string
  from_lang_name :: string
  to_lang_name :: string
  input_type :: "string option"

text \<open>
  \<open>st.session_state.app_state\<close>. The field \<open>translated_text\<close> is \<open>None\<close> for the
  empty string \<open>""\<close> the code stores when there is no result, and \<open>Some r\<close> for a
  result dict (which is never empty, so it is always truthy).
\<close>

record app_state =
  is_translating :: bool
  status :: string
  status_class :: string
  translated_text :: "translation_result option"
  conversation_history :: "history_entry list"
  start_time :: nat
  total_translations :: int
  favorites :: "history_entry list"
  settings :: settings

text \<open>\<open>st.session_state\<close>: the application state and the widget values the handlers read.\<close>

record session_state =
  app :: app_state
  text_input :: string
  current_from_lang :: string
  current_to_lang :: string

definition default_settings :: settings where
  "default_settings =
     \<lparr>max_history = 10, speech_timeout = 5, theme = ''light'', show_stats = True\<rparr>"

definition initial_app_state :: "nat \<Rightarrow> app_state" where
  "initial_app_state now =
     \<lparr>is_translating = False,
      status = ''Ready to translate'',
      status_class = ''status-ready'',
      translated_text = None,
      conversation_history = [],
      start_time = now,
      total_translations = 0,
      favorites = [],
      settings = default_settings\<rparr>"

section \<open>The language directory\<close>

text \<open>
  \<open>LANGUAGES\<close> of googletrans is a dict from language code to language name; it is a
  parameter here, an association list in the dict's order. A dict comprehension stores
  its pairs one after the other, a later pair replacing the value of a key already there.
\<close>

type_synonym languages = "(string \<times> string) list"

definition language_mapping :: "languages \<Rightarrow> (string \<times> string) list" where
  "language_mapping L = fold (\<lambda>(code, name) d. AList.update name code d) L []"

definition language_code_to_name :: "languages \<Rightarrow> (string \<times> string) list" where
  "language_code_to_name L =
     fold (\<lambda>(name, code) d. AList.update code name d) (language_mapping L) []"

definition get_language_code :: "languages \<Rightarrow> string \<Rightarrow> string" where
  "get_language_code L language_name =
     (case map_of (language_mapping L) (lower language_name) of
        Some code \<Rightarrow> code
      | None \<Rightarrow> language_name)"

definition get_language_name :: "languages \<Rightarrow> string \<Rightarrow> string" where
  "get_language_name L language_code =
     capitalize (case map_of (language_code_to_name L) language_code of
                   Some name \<Rightarrow> name
                 | None \<Rightarrow> language_code)"

section \<open>The actions\<close>

definition update_status :: "string \<Rightarrow> string \<Rightarrow> app_state \<Rightarrow> app_state" where
  "update_status msg cls s = s\<lparr>status := msg, status_class := cls\<rparr>"

text \<open>
  \<open>translator.translate(text, src, dest)\<close> is the external service: \<open>Inr t\<close> when it
  returns a result whose text is \<open>t\<close>, \<open>Inl e\<close> when it raises an exception that prints
  as \<open>e\<close>.
\<close>

type_synonym translator = "string \<Rightarrow> string \<Rightarrow> string \<Rightarrow> string + string"

definition translate_text ::
  "translator \<Rightarrow> string \<Rightarrow> string \<Rightarrow> string \<Rightarrow> app_state \<Rightarrow> string option \<times> app_state" where
  "translate_text tr text src dest s =
     (if strip text = [] then (None, s)
      else (case tr text src dest of
              Inr result \<Rightarrow> (Some result, s\<lparr>total_translations := total_translations s + 1\<rparr>)
            | Inl e \<Rightarrow>
                (None, update_status (cross_mark @ '' Translation failed: '' @ e) ''status-error'' s)))"

text \<open>
  Python's \<open>xs[-n:]\<close>: the start \<open>-n\<close> counts from the end when it is negative and is
  clamped to the list; for \<open>n = 0\<close> it is the start \<open>0\<close>, the whole list.
\<close>

definition slice_from :: "'a list \<Rightarrow> int \<Rightarrow> 'a list" where
  "slice_from xs start =
     (let l = int (length xs);
          i = (if start < 0 then max 0 (l + start) else min start l)
      in drop (nat i) xs)"

text \<open>The bound on the history, as both translation paths apply it after appending.\<close>

definition limit_history :: "app_state \<Rightarrow> app_state" where
  "limit_history s =
     (if int (length (conversation_history s)) > max_history (settings s)
      then s\<lparr>conversation_history :=
               slice_from (conversation_history s) (- max_history (settings s))\<rparr>
      else s)"

text \<open>
  \<open>text_input_translation\<close>; \<open>now\<close> is the formatted time \<open>datetime.now()\<close> gives.
\<close>

definition text_input_translation ::
  "languages \<Rightarrow> translator \<Rightarrow> string \<Rightarrow> session_state \<Rightarrow> session_state" where
  "text_input_translation L tr now ss =
     (let input_text = text_input ss in
      if input_text = [] then ss
      else
        let s1 = update_status (sparkles @ '' Translating...'') ''status-processing'' (app ss);
            (translation, s2) =
               translate_text tr input_text (current_from_lang ss) (current_to_lang ss) s1
        in case translation of
             None \<Rightarrow> ss\<lparr>app := s2\<rparr>
           | Some translated \<Rightarrow>
               let s3 = s2\<lparr>translated_text := Some
                          \<lparr>res_original = input_text,
                           res_translation = translated,
                           res_from_lang = get_language_name L (current_from_lang ss),
                           res_to_lang = get_language_name L (current_to_lang ss)\<rparr>\<rparr>;
                   entry =
                          \<lparr>timestamp = now,
                           original = input_text,
                           translation = translated,
                           from_lang = current_from_lang ss,
                           to_lang = current_to_lang ss,
                           from_lang_name = get_language_name L (current_from_lang ss),
                           to_lang_name = get_language_name L (current_to_lang ss),
                           input_type = Some ''text''\<rparr>;
                   s4 = s3\<lparr>conversation_history := conversation_history s3 @ [entry]\<rparr>;
                   s5 = limit_history s4
               in ss\<lparr>app := update_status (check_mark @ '' Translation complete'') ''status-ready'' s5,
                      text_input := []\<rparr>)"

text \<open>
  What the microphone and the recogniser did in one run of \<open>translate_speech\<close>:
  an exception of \<open>sr.Microphone()\<close> or \<open>adjust_for_ambient_noise\<close>, an exception of
  \<open>listen\<close> (a timeout among them), the two exceptions of \<open>recognize_google\<close> the
  function handles by name, any other exception of it, or the recognised text. The
  strings are what \<open>str(e)\<close> gives.
\<close>

datatype speech_outcome =
    SourceFailure string
  | ListenFailure string
  | UnknownValueError
  | RequestError
  | RecognizeFailure string
  | Recognized string

definition translate_speech ::
  "languages \<Rightarrow> translator \<Rightarrow> string \<Rightarrow> speech_outcome \<Rightarrow> session_state \<Rightarrow> session_state" where
  "translate_speech L tr now heard ss =
     (let s0 = update_status (microphone @ '' Preparing to listen...'') ''status-processing'' (app ss);
          s1 = update_status (microphone @ '' Listening...'') ''status-listening'' s0;
          s2 = update_status (arrows @ '' Processing speech...'') ''status-processing'' s1;
          failed = (\<lambda>e. update_status (cross_mark @ '' Error: '' @ e) ''status-error'');
          s_out =
            (case heard of
               SourceFailure e \<Rightarrow> failed e s0
             | ListenFailure e \<Rightarrow> failed e s1
             | UnknownValueError \<Rightarrow>
                 update_status (question_mark @ '' Could not understand audio'') ''status-error'' s2
             | RequestError \<Rightarrow>
                 update_status (cross_mark @ '' Speech recognition service unavailable'')
                   ''status-error'' s2
             | RecognizeFailure e \<Rightarrow> failed e s2
             | Recognized spoken_text \<Rightarrow>
                (let s3 = update_status (sparkles @ '' Translating...'') ''status-processing'' s2;
                     (translation, s4) =
                        translate_text tr spoken_text (current_from_lang ss) (current_to_lang ss) s3
                 in (case translation of
                      None \<Rightarrow> s4
                    | Some translated \<Rightarrow>
                        let s5 = s4\<lparr>translated_text := Some
                                   \<lparr>res_original = spoken_text,
                                    res_translation = translated,
                                    res_from_lang = get_language_name L (current_from_lang ss),
                                    res_to_lang = get_language_name L (current_to_lang ss)\<rparr>\<rparr>;
                            entry =
                                   \<lparr>timestamp = now,
                                    original = spoken_text,
                                    translation = translated,
                                    from_lang = current_from_lang ss,
                                    to_lang = current_to_lang ss,
                                    from_lang_name = get_language_name L (current_from_lang ss),
                                    to_lang_name = get_language_name L (current_to_lang ss),
                                    input_type = None\<rparr>;
                            s6 = s5\<lparr>conversation_history := conversation_history s5 @ [entry]\<rparr>;
                            s7 = limit_history s6
                        in update_status (check_mark @ '' Translation complete'') ''status-ready'' s7)))
      in ss\<lparr>app := s_out\<lparr>is_translating := False\<rparr>\<rparr>)"

text \<open>
  \<open>save_to_favorites\<close>: \<open>conversation_history[-1]\<close> raises \<open>IndexError\<close> on an empty
  list, and nothing in the function or in its caller catches it.
\<close>

datatype error = IndexError | ValueError

definition save_to_favorites :: "app_state \<Rightarrow> error + app_state" where
  "save_to_favorites s =
     (case translated_text s of
        None \<Rightarrow> Inr s
      | Some r \<Rightarrow>
          (case conversation_history s of
             [] \<Rightarrow> Inl IndexError
           | e # es \<Rightarrow> Inr (s\<lparr>favorites := favorites s @ [last (e # es)]\<rparr>)))"

section \<open>Export, search and statistics\<close>

text \<open>
  Modelled from the spec: \<open>pd.DataFrame(history).to_csv(index=False)\<close> is a function of
  pandas, which is not among the sources. The spec has the export as a tabular text,
  one row per entry and one column per field, with a header row. The rest follows the
  defaults of pandas: one column per key in the order the keys first occur
  (\<open>'input_type'\<close> is the last key, and is a column when some entry has it), a missing
  value written as the empty field, fields separated by commas, a field put in double
  quotes (its own double quotes doubled) when it holds a comma, a double quote or a line
  break, and every row ended by a line feed. Encoding to UTF-8 is the identity on the
  bytes.
\<close>

definition csv_special :: "char \<Rightarrow> bool" where
  "csv_special c = (c = CHR '','' \<or> c = CHR 0x22 \<or> c = CHR 0x0A \<or> c = CHR 0x0D)"

definition csv_escape :: "string \<Rightarrow> string" where
  "csv_escape f = concat (map (\<lambda>c. if c = CHR 0x22 then [CHR 0x22, CHR 0x22] else [c]) f)"

definition csv_field :: "string \<Rightarrow> string" where
  "csv_field f = (if list_ex csv_special f then [CHR 0x22] @ csv_escape f @ [CHR 0x22] else f)"

fun csv_join :: "string list \<Rightarrow> string" where
  "csv_join [] = []"
| "csv_join [f] = f"
| "csv_join (f # g # fs) = f @ [CHR '',''] @ csv_join (g # fs)"

definition csv_row :: "string list \<Rightarrow> string" where
  "csv_row fs = csv_join (map csv_field fs) @ [CHR 0x0A]"

definition has_input_type :: "history_entry list \<Rightarrow> bool" where
  "has_input_type h = list_ex (\<lambda>e. input_type e \<noteq> None) h"

definition columns :: "history_entry list \<Rightarrow> string list" where
  "columns h =
     [''timestamp'', ''original'', ''translation'', ''from_lang'', ''to_lang'',
      ''from_lang_name'', ''to_lang_name'']
     @ (if has_input_type h then [''input_type''] else [])"

definition cells :: "history_entry list \<Rightarrow> history_entry \<Rightarrow> string list" where
  "cells h e =
     [timestamp e, original e, translation e, from_lang e, to_lang e,
      from_lang_name e, to_lang_name e]
     @ (if has_input_type h then [case input_type e of Some t \<Rightarrow> t | None \<Rightarrow> []] else [])"

definition to_csv :: "history_entry list \<Rightarrow> string" where
  "to_csv h = csv_row (columns h) @ concat (map (\<lambda>e. csv_row (cells h e)) h)"

text \<open>\<open>export_history\<close> reads the state and writes nothing; the state is returned as it was.\<close>

definition export_history :: "app_state \<Rightarrow> string option \<times> app_state" where
  "export_history s =
     (if conversation_history s \<noteq> [] then (Some (to_csv (conversation_history s)), s)
      else (None, s))"

text \<open>
  The rows of a CSV text: the line feeds outside double quotes, each ending one row.
  The flag says whether the reader is inside a quoted field.
\<close>

fun csv_rows :: "bool \<Rightarrow> string \<Rightarrow> nat" where
  "csv_rows q [] = 0"
| "csv_rows q (c # cs) =
     (if c = CHR 0x22 then csv_rows (\<not> q) cs
      else if c = CHR 0x0A \<and> \<not> q then Suc (csv_rows q cs)
      else csv_rows q cs)"






text \<open>
  A text that is lowered letter by letter: it has no Greek capital sigma, and the
  lowercase of each of its characters is one character. Every ASCII text is such.
\<close>

definition plain :: "unicode_database \<Rightarrow> nat list \<Rightarrow> bool" where
  "plain U s = list_all (\<lambda>c. c \<noteq> 0x3A3 \<and> length (to_lower_full U c) = 1) s"

text \<open>
  The most used language of \<open>display_stats\<close>. \<open>langs\<close> is a dict in insertion order;
  \<open>max(langs, key=langs.get)\<close> walks its keys and keeps the first key whose count no
  later key exceeds; on an empty dict it raises \<open>ValueError\<close>.
\<close>

definition dict_get :: "('k \<times> int) list \<Rightarrow> 'k \<Rightarrow> int" where
  "dict_get d k = (case map_of d k of Some n \<Rightarrow> n | None \<Rightarrow> 0)"

definition count_targets :: "history_entry list \<Rightarrow> (string \<times> int) list" where
  "count_targets h =
     fold (\<lambda>entry langs.
             let target = to_lang_name entry
             in AList.update target (dict_get langs target + 1) langs) h []"

fun max_loop :: "('a \<Rightarrow> int) \<Rightarrow> 'a \<Rightarrow> 'a list \<Rightarrow> 'a" where
  "max_loop key best [] = best"
| "max_loop key best (x # xs) = max_loop key (if key x > key best then x else best) xs"

definition max_key :: "('a \<Rightarrow> int) \<Rightarrow> 'a list \<Rightarrow> error + 'a" where
  "max_key key xs = (case xs of [] \<Rightarrow> Inl ValueError | x # rest \<Rightarrow> Inr (max_loop key x rest))"

definition most_used_language :: "app_state \<Rightarrow> error + string" where
  "most_used_language s =
     (if conversation_history s \<noteq> [] then
        (let langs = count_targets (conversation_history s)
         in max_key (dict_get langs) (map fst langs))
      else Inr ''None'')"

text \<open>The first position of \<open>x\<close> in \<open>xs\<close> (the length of \<open>xs\<close> when it is not there).\<close>

definition first_index :: "'a list \<Rightarrow> 'a \<Rightarrow> nat" where
  "first_index xs x = length (takeWhile (\<lambda>y. y \<noteq> x) xs)"

section \<open>The handlers of main\<close>

text \<open>
  One user action per run of the script: a button, the text area, the language boxes or
  a settings widget. The widgets for \<open>max_history\<close> and \<open>speech_timeout\<close> only give
  values in their ranges, 5 to 100 and 1 to 15.
\<close>

datatype action =
    StartListening translator string speech_outcome
  | StopListening
  | TypeText string
  | SelectLanguages string string
  | TranslateText translator string
  | SaveToFavorites
  | NewTranslation
  | ClearHistory
  | AddToFavorites history_entry
  | MaxHistorySetting int
  | SpeechTimeoutSetting int
  | ThemeSetting string
  | ShowStatsSetting bool
  | ResetSettings

definition on_app :: "(app_state \<Rightarrow> app_state) \<Rightarrow> session_state \<Rightarrow> session_state" where
  "on_app f ss = ss\<lparr>app := f (app ss)\<rparr>"

fun step :: "languages \<Rightarrow> action \<Rightarrow> session_state \<Rightarrow> error + session_state" where
  "step L (StartListening tr now heard) ss =
     Inr (translate_speech L tr now heard (on_app (\<lambda>s. s\<lparr>is_translating := True\<rparr>) ss))"
| "step L StopListening ss =
     Inr (on_app (\<lambda>s. update_status (stop_sign @ '' Stopped'') ''status-ready''
                        (s\<lparr>is_translating := False\<rparr>)) ss)"
| "step L (TypeText t) ss = Inr (ss\<lparr>text_input := t\<rparr>)"
| "step L (SelectLanguages from_name to_name) ss =
     Inr (ss\<lparr>current_from_lang := get_language_code L from_name,
              current_to_lang := get_language_code L to_name\<rparr>)"
| "step L (TranslateText tr now) ss = Inr (text_input_translation L tr now ss)"
| "step L SaveToFavorites ss =
     (case save_to_favorites (app ss) of Inl e \<Rightarrow> Inl e | Inr s \<Rightarrow> Inr (ss\<lparr>app := s\<rparr>))"
| "step L NewTranslation ss =
     Inr (on_app (\<lambda>s. update_status ''Ready to translate'' ''status-ready''
                        (s\<lparr>translated_text := None\<rparr>)) ss)"
| "step L ClearHistory ss = Inr (on_app (\<lambda>s. s\<lparr>conversation_history := []\<rparr>) ss)"
| "step L (AddToFavorites entry) ss =
     Inr (on_app (\<lambda>s. if entry \<notin> set (favorites s)
                       then s\<lparr>favorites := favorites s @ [entry]\<rparr> else s) ss)"
| "step L (MaxHistorySetting n) ss =
     Inr (on_app (\<lambda>s. s\<lparr>settings := (settings s)\<lparr>max_history := n\<rparr>\<rparr>) ss)"
| "step L (SpeechTimeoutSetting n) ss =
     Inr (on_app (\<lambda>s. s\<lparr>settings := (settings s)\<lparr>speech_timeout := n\<rparr>\<rparr>) ss)"
| "step L (ThemeSetting t) ss =
     Inr (on_app (\<lambda>s. s\<lparr>settings := (settings s)\<lparr>theme := lower t\<rparr>\<rparr>) ss)"
| "step L (ShowStatsSetting b) ss =
     Inr (on_app (\<lambda>s. s\<lparr>settings := (settings s)\<lparr>show_stats := b\<rparr>\<rparr>) ss)"
| "step L ResetSettings ss = Inr (on_app (\<lambda>s. s\<lparr>settings := default_settings\<rparr>) ss)"

section \<open>Entries and examples used in the statements\<close>

text \<open>The entry \<open>text_input_translation\<close> builds for the result \<open>out\<close>.\<close>

definition text_entry :: "languages \<Rightarrow> string \<Rightarrow> session_state \<Rightarrow> string \<Rightarrow> history_entry" where
  "text_entry L now ss out =
     \<lparr>timestamp = now,
      original = text_input ss,
      translation = out,
      from_lang = current_from_lang ss,
      to_lang = current_to_lang ss,
      from_lang_name = get_language_name L (current_from_lang ss),
      to_lang_name = get_language_name L (current_to_lang ss),
      input_type = Some ''text''\<rparr>"

definition example_languages :: languages where
  "example_languages = [(''en'', ''english''), (''es'', ''spanish''), (''fr'', ''french'')]"

definition fresh_session :: session_state where
  "fresh_session =
     \<lparr>app = initial_app_state 0, text_input = [],
      current_from_lang = ''en'', current_to_lang = ''es''\<rparr>"

text \<open>A translation service that answers every request.\<close>

definition echo_translator :: translator where
  "echo_translator text src dest = Inr (dest @ '':'' @ text)"




text \<open>
  A run of \<open>translate_speech\<close> in which a gateway fails: the microphone, the listening
  or the recogniser raises, or the text was recognised and sent to the translation
  service (it is not blank), and the service raises.
\<close>

definition gateway_failure :: "translator \<Rightarrow> session_state \<Rightarrow> speech_outcome \<Rightarrow> bool" where
  "gateway_failure tr ss heard =
     (case heard of
        Recognized spoken_text \<Rightarrow>
          strip spoken_text \<noteq> [] \<and>
          isl (tr spoken_text (current_from_lang ss) (current_to_lang ss))
      | _ \<Rightarrow> True)"

text \<open>A directory in which two codes carry one name.\<close>

definition two_hebrew_codes :: languages where
  "two_hebrew_codes = [(''iw'', ''hebrew''), (''he'', ''hebrew'')]"

text \<open>A history of one translation into French and three into Spanish.\<close>

definition spanish_three_french_one :: app_state where
  "spanish_three_french_one =
     (initial_app_state 0)\<lparr>conversation_history :=
        map (\<lambda>(dest, name).
               \<lparr>timestamp = ''2024-05-01 10:00:00'', original = ''good morning'',
                translation = ''...'', from_lang = ''en'', to_lang = dest,
                from_lang_name = ''English'', to_lang_name = name, input_type = Some ''text''\<rparr>)
          [(''fr'', ''French''), (''es'', ''Spanish''), (''es'', ''Spanish''), (''es'', ''Spanish'')]\<rparr>"

text \<open>
  A history of two entries: a spoken one, and a typed one whose text holds a line break
  and double quotes.
\<close>

definition two_line_history :: app_state where
  "two_line_history =
     (initial_app_state 0)\<lparr>conversation_history :=
        [\<lparr>timestamp = ''2024-05-01 10:00:00'', original = ''one, two'',
          translation = ''uno, dos'', from_lang = ''en'', to_lang = ''es'',
          from_lang_name = ''English'', to_lang_name = ''Spanish'', input_type = None\<rparr>,
         \<lparr>timestamp = ''2024-05-01 10:00:05'',
          original = ''first line'' @ [CHR 0x0A] @ ''he said '' @ [CHR 0x22] @ ''hi'' @ [CHR 0x22],
          translation = ''premiere ligne'', from_lang = ''en'', to_lang = ''fr'',
          from_lang_name = ''English'', to_lang_name = ''French'',
          input_type = Some ''text''\<rparr>]\<rparr>"






section \<open>The text path\<close>

lemma strip_Nil: "strip [] = []"
  by (simp add: strip_def)





lemma text_input_translation_success:
  assumes "strip (text_input ss) \<noteq> []"
    and "tr (text_input ss) (current_from_lang ss) (current_to_lang ss) = Inr out"
  shows "text_input_translation L tr now ss =
     ss\<lparr>app := update_status (check_mark @ '' Translation complete'') ''status-ready''
                (limit_history ((app ss)
                   \<lparr>total_translations := total_translations (app ss) + 1,
                    translated_text := Some
                       \<lparr>res_original = text_input ss,
                        res_translation = out,
                        res_from_lang = get_language_name L (current_from_lang ss),
                        res_to_lang = get_language_name L (current_to_lang ss)\<rparr>,
                    conversation_history :=
                       conversation_history (app ss) @ [text_entry L now ss out]\<rparr>)),
         text_input := []\<rparr>"
proof -
  from assms(1) have "text_input ss \<noteq> []" by (auto simp add: strip_Nil)
  with assms show ?thesis
    by (simp add: text_input_translation_def translate_text_def update_status_def
        text_entry_def Let_def limit_history_def)
qed

lemma slice_from_last:
  "1 \<le> m \<Longrightarrow> int (length xs) > m \<Longrightarrow> slice_from xs (- m) = drop (length xs - nat m) xs"
  by (auto simp add: slice_from_def Let_def max_def nat_diff_distrib'
      intro!: arg_cong[where f="\<lambda>k. drop k xs"])

lemma limit_history_history:
  "1 \<le> max_history (settings s) \<Longrightarrow>
   conversation_history (limit_history s) =
     drop (length (conversation_history s) - nat (max_history (settings s)))
       (conversation_history s)"
  by (auto simp add: limit_history_def slice_from_last)

lemma limit_history_other:
  "settings (limit_history s) = settings s"
  "total_translations (limit_history s) = total_translations s"
  "translated_text (limit_history s) = translated_text s"
  "favorites (limit_history s) = favorites s"
  "status (limit_history s) = status s"
  "status_class (limit_history s) = status_class s"
  by (simp_all add: limit_history_def)

text \<open>
  C1. The claim: the text action on empty or white-space-only input changes nothing,
  the status included. On the empty input that is so (\<open>text_input_translation_empty\<close>).
  On the input of three spaces, from the state of a fresh session, the action leaves the
  history, the current result and the counter as they were, but it has already written
  the status ``Translating...'' of class \<open>status-processing\<close> before \<open>translate_text\<close>
  turns the blank text away, and nothing writes the status back.
\<close>

theorem blank_text_changes_status:
  "let ss = fresh_session\<lparr>text_input := ''   ''\<rparr>;
       ss' = text_input_translation L tr now ss
   in conversation_history (app ss') = conversation_history (app ss) \<and>
      translated_text (app ss') = translated_text (app ss) \<and>
      total_translations (app ss') = total_translations (app ss) \<and>
      status (app ss) = ''Ready to translate'' \<and>
      status_class (app ss) = ''status-ready'' \<and>
      status (app ss') = sparkles @ '' Translating...'' \<and>
      status_class (app ss') = ''status-processing'' \<and>
      status (app ss') \<noteq> status (app ss) \<and>
      status_class (app ss') \<noteq> status_class (app ss)"
  by (simp add: text_input_translation_def translate_text_def strip_def is_space_def
      update_status_def initial_app_state_def fresh_session_def Let_def sparkles_def)

text \<open>
  C6. A text translation succeeds when \<open>translate_text\<close> returns a result, that is
  (\<open>translate_text_result\<close>) when the text is not blank and the service answers. Then
  the counter grows by exactly one and exactly one entry, tagged \<open>text\<close>, is appended:
  the new history is the old one with that entry at its end, cut from the front to the
  last \<open>max_history\<close> entries, and it is the old one plus the entry when there was room.
\<close>

theorem text_translation_appends_one:
  assumes "strip (text_input ss) \<noteq> []"
    and "tr (text_input ss) (current_from_lang ss) (current_to_lang ss) = Inr out"
    and "1 \<le> max_history (settings (app ss))"
  shows "let ss' = text_input_translation L tr now ss;
             h = conversation_history (app ss);
             h' = conversation_history (app ss');
             e = text_entry L now ss out
         in total_translations (app ss') = total_translations (app ss) + 1 \<and>
            h' = drop (length h + 1 - nat (max_history (settings (app ss)))) (h @ [e]) \<and>
            h' \<noteq> [] \<and> last h' = e \<and> input_type e = Some ''text'' \<and>
            (int (length h) < max_history (settings (app ss)) \<longrightarrow> h' = h @ [e])"
proof -
  let ?m = "max_history (settings (app ss))"
  let ?h = "conversation_history (app ss)"
  let ?e = "text_entry L now ss out"
  let ?k = "length ?h + 1 - nat ?m"
  have k: "?k \<le> length ?h" using assms(3) by linarith
  have h': "conversation_history (app (text_input_translation L tr now ss)) = drop ?k (?h @ [?e])"
    using assms
    by (simp add: text_input_translation_success update_status_def limit_history_history)
  have ne: "drop ?k (?h @ [?e]) \<noteq> []" using k by simp
  have la: "last (drop ?k (?h @ [?e])) = ?e" using k by (simp add: last_drop)
  have tot: "total_translations (app (text_input_translation L tr now ss)) =
      total_translations (app ss) + 1"
    using assms by (simp add: text_input_translation_success update_status_def limit_history_other)
  have small: "int (length ?h) < ?m \<Longrightarrow> ?k = 0" by linarith
  show ?thesis
    unfolding Let_def using h' ne la tot small by (simp add: text_entry_def)
qed

theorem text_translation_appends_one_witness:
  "let ss = fresh_session\<lparr>text_input := ''hello''\<rparr>;
       ss' = text_input_translation example_languages echo_translator ''2024-05-01 10:00:00'' ss
   in strip (text_input ss) \<noteq> [] \<and>
      echo_translator (text_input ss) (current_from_lang ss) (current_to_lang ss) = Inr ''es:hello'' \<and>
      1 \<le> max_history (settings (app ss)) \<and>
      total_translations (app ss') = 1 \<and>
      conversation_history (app ss') =
        [text_entry example_languages ''2024-05-01 10:00:00'' ss ''es:hello'']"
  using text_translation_appends_one
    [of "fresh_session\<lparr>text_input := ''hello''\<rparr>" echo_translator "''es:hello''"
        example_languages "''2024-05-01 10:00:00''"]
  by (simp add: Let_def fresh_session_def initial_app_state_def default_settings_def
      echo_translator_def strip_def is_space_def)

text \<open>
  C5. From an empty history, a counter at zero and \<open>max_history = 2\<close>, three successful
  text translations in a row leave the second and the third entry in the history, in
  that order, and the counter at three.
\<close>

theorem three_translations_keep_last_two:
  assumes "conversation_history (app s0) = []"
    and "max_history (settings (app s0)) = 2"
    and "total_translations (app s0) = 0"
    and "strip t1 \<noteq> []" and "strip t2 \<noteq> []" and "strip t3 \<noteq> []"
    and "tr1 t1 (current_from_lang s0) (current_to_lang s0) = Inr o1"
    and "tr2 t2 (current_from_lang s0) (current_to_lang s0) = Inr o2"
    and "tr3 t3 (current_from_lang s0) (current_to_lang s0) = Inr o3"
  shows "let s1 = text_input_translation L tr1 n1 (s0\<lparr>text_input := t1\<rparr>);
             s2 = text_input_translation L tr2 n2 (s1\<lparr>text_input := t2\<rparr>);
             s3 = text_input_translation L tr3 n3 (s2\<lparr>text_input := t3\<rparr>)
         in conversation_history (app s3) =
              [text_entry L n2 (s0\<lparr>text_input := t2\<rparr>) o2,
               text_entry L n3 (s0\<lparr>text_input := t3\<rparr>) o3] \<and>
            total_translations (app s3) = 3"
proof -
  define s1 where "s1 = text_input_translation L tr1 n1 (s0\<lparr>text_input := t1\<rparr>)"
  define s2 where "s2 = text_input_translation L tr2 n2 (s1\<lparr>text_input := t2\<rparr>)"
  define s3 where "s3 = text_input_translation L tr3 n3 (s2\<lparr>text_input := t3\<rparr>)"
  have 1: "conversation_history (app s1) = [text_entry L n1 (s0\<lparr>text_input := t1\<rparr>) o1]"
      "total_translations (app s1) = 1" "max_history (settings (app s1)) = 2"
      "current_from_lang s1 = current_from_lang s0" "current_to_lang s1 = current_to_lang s0"
    unfolding s1_def using assms
    by (simp_all add: text_input_translation_success update_status_def limit_history_history
        limit_history_other)
  have 2: "conversation_history (app s2) =
        [text_entry L n1 (s0\<lparr>text_input := t1\<rparr>) o1, text_entry L n2 (s0\<lparr>text_input := t2\<rparr>) o2]"
      "total_translations (app s2) = 2" "max_history (settings (app s2)) = 2"
      "current_from_lang s2 = current_from_lang s0" "current_to_lang s2 = current_to_lang s0"
    unfolding s2_def using assms 1
    by (simp_all add: text_input_translation_success update_status_def limit_history_history
        limit_history_other text_entry_def)
  have 3: "conversation_history (app s3) =
        [text_entry L n2 (s0\<lparr>text_input := t2\<rparr>) o2, text_entry L n3 (s0\<lparr>text_input := t3\<rparr>) o3]"
      "total_translations (app s3) = 3"
    unfolding s3_def using assms 2
    by (simp_all add: text_input_translation_success update_status_def limit_history_history
        limit_history_other text_entry_def)
  show ?thesis
    unfolding Let_def using 3 by (simp add: s1_def s2_def s3_def)
qed

theorem three_translations_keep_last_two_witness:
  "let s0 = fresh_session\<lparr>app := (app fresh_session)\<lparr>settings := default_settings\<lparr>max_history := 2\<rparr>\<rparr>\<rparr>;
       s1 = text_input_translation example_languages echo_translator ''10:00:01'' (s0\<lparr>text_input := ''one''\<rparr>);
       s2 = text_input_translation example_languages echo_translator ''10:00:02'' (s1\<lparr>text_input := ''two''\<rparr>);
       s3 = text_input_translation example_languages echo_translator ''10:00:03'' (s2\<lparr>text_input := ''three''\<rparr>)
   in conversation_history (app s0) = [] \<and> max_history (settings (app s0)) = 2 \<and>
      total_translations (app s0) = 0 \<and>
      strip ''one'' \<noteq> [] \<and> strip ''two'' \<noteq> [] \<and> strip ''three'' \<noteq> [] \<and>
      map original (conversation_history (app s3)) = [''two'', ''three''] \<and>
      map translation (conversation_history (app s3)) = [''es:two'', ''es:three''] \<and>
      total_translations (app s3) = 3"
  using three_translations_keep_last_two [of "fresh_session\<lparr>app := (app fresh_session)\<lparr>settings := default_settings\<lparr>max_history := 2\<rparr>\<rparr>\<rparr>"
      "''one''" "''two''" "''three''" echo_translator "''es:one''" echo_translator "''es:two''"
      echo_translator "''es:three''" example_languages "''10:00:01''" "''10:00:02''" "''10:00:03''"]
  by (simp add: Let_def fresh_session_def initial_app_state_def default_settings_def
      echo_translator_def strip_def is_space_def text_entry_def)

section \<open>The speech path\<close>

text \<open>
  C4. When a gateway fails in \<open>translate_speech\<close> (no speech understood, the
  recognition service unreachable, any other exception of the microphone, the listening
  or the recogniser, or a failure of the translation service), the status ends as a
  non-empty message of class \<open>status-error\<close>, and the history and the current result are
  as before the call.
\<close>

theorem speech_failure_sets_error:
  assumes "gateway_failure tr ss heard"
  shows "let ss' = translate_speech L tr now heard ss
         in status_class (app ss') = ''status-error'' \<and>
            status (app ss') \<noteq> [] \<and>
            conversation_history (app ss') = conversation_history (app ss) \<and>
            translated_text (app ss') = translated_text (app ss)"
proof (cases heard)
  case (Recognized spoken_text)
  with assms obtain e where "strip spoken_text \<noteq> []"
    and "tr spoken_text (current_from_lang ss) (current_to_lang ss) = Inl e"
    by (auto simp add: gateway_failure_def isl_def)
  with Recognized show ?thesis
    by (simp add: translate_speech_def translate_text_def update_status_def Let_def cross_mark_def)
qed (simp_all add: translate_speech_def update_status_def Let_def cross_mark_def question_mark_def)

theorem speech_failure_sets_error_witness:
  "let ss = fresh_session;
       ss' = translate_speech example_languages echo_translator ''10:00:00'' UnknownValueError ss
   in gateway_failure echo_translator ss UnknownValueError \<and>
      status_class (app ss') = ''status-error'' \<and>
      status (app ss') = question_mark @ '' Could not understand audio'' \<and>
      conversation_history (app ss') = [] \<and>
      translated_text (app ss') = None"
  using speech_failure_sets_error [of echo_translator fresh_session UnknownValueError example_languages "''10:00:00''"]
  by (simp add: Let_def gateway_failure_def translate_speech_def update_status_def
      fresh_session_def initial_app_state_def)

section \<open>Favorites\<close>

lemma save_to_favorites_no_result:
  "translated_text s = None \<Longrightarrow> save_to_favorites s = Inr s"
  by (simp add: save_to_favorites_def)

lemma save_to_favorites_appends:
  "translated_text s = Some r \<Longrightarrow> conversation_history s \<noteq> [] \<Longrightarrow>
   save_to_favorites s = Inr (s\<lparr>favorites := favorites s @ [last (conversation_history s)]\<rparr>)"
  by (cases "conversation_history s") (simp_all add: save_to_favorites_def)

lemma save_to_favorites_raises:
  "translated_text s = Some r \<Longrightarrow> conversation_history s = [] \<Longrightarrow>
   save_to_favorites s = Inl IndexError"
  by (simp add: save_to_favorites_def)

text \<open>
  C3. The claim: \<open>save_to_favorites\<close> never raises. It is a no-op without a current
  result (\<open>save_to_favorites_no_result\<close>) and appends the last entry of a non-empty
  history (\<open>save_to_favorites_appends\<close>). After one translation and ``Clear History''
  the current result is still there and the history is empty, and the button
  ``Save to Favorites'' raises \<open>IndexError\<close>.
\<close>

theorem save_after_clear_raises:
  "let s1 = text_input_translation L echo_translator now (fresh_session\<lparr>text_input := ''hello''\<rparr>)
   in translated_text (app s1) \<noteq> None \<and>
      (case step L ClearHistory s1 of
         Inr s2 \<Rightarrow> translated_text (app s2) \<noteq> None \<and> conversation_history (app s2) = [] \<and>
                   step L SaveToFavorites s2 = Inl IndexError
       | Inl e \<Rightarrow> False)"
  by (simp add: Let_def text_input_translation_def translate_text_def update_status_def
      strip_def is_space_def fresh_session_def initial_app_state_def echo_translator_def
      limit_history_def on_app_def save_to_favorites_def default_settings_def)

section \<open>The bound on the history\<close>










section \<open>Searching the history\<close>



text \<open>
  On ASCII text the lowering on code points is the lowering on bytes that the language
  directory uses.
\<close>

lemma ascii_plain: "list_all (\<lambda>c. c < 128) s \<Longrightarrow> plain U s"
  by (auto simp add: plain_def list_all_iff to_lower_full_def)

lemma utf8_ascii:
  "list_all (\<lambda>c. (of_char c :: nat) < 128) s \<Longrightarrow> utf8 0 0 s = map of_char s"
  by (induction s) (simp_all add: Let_def)

lemma decode_ascii:
  "list_all (\<lambda>c. (of_char c :: nat) < 128) s \<Longrightarrow> decode s = map of_char s"
  by (simp add: decode_def utf8_ascii)

lemma of_char_lower_char: "(of_char (lower_char c) :: nat) = ascii_lower (of_char c)"
proof (cases "65 \<le> (of_char c :: nat) \<and> (of_char c :: nat) \<le> 90")
  case True
  then have "((of_char c :: nat) + 32) mod 256 = of_char c + 32" by simp
  with True show ?thesis by (simp add: lower_char_def ascii_lower_def Let_def)
next
  case False
  then show ?thesis by (auto simp add: lower_char_def ascii_lower_def Let_def)
qed

lemma str_lower_ascii:
  assumes "list_all (\<lambda>c. (of_char c :: nat) < 128) s"
  shows "str_lower U (decode s) = decode (lower s)"
proof -
  have low: "list_all (\<lambda>c. (of_char c :: nat) < 128) (lower s)"
    using assms by (auto simp add: list_all_iff lower_def of_char_lower_char ascii_lower_def)
  have "list_all (\<lambda>c. c < 128) (map of_char s :: nat list)"
    using assms by (simp add: list_all_iff)
  then have "str_lower U (map of_char s) = map ascii_lower (map of_char s)"
    by (simp add: str_lower_def)
  also have "\<dots> = map of_char (lower s)"
    by (simp add: lower_def of_char_lower_char)
  finally show ?thesis by (simp add: decode_ascii[OF assms] decode_ascii[OF low])
qed



















section \<open>The language directory: names and codes\<close>

lemma lower_char_upper_char: "lower_char (upper_char c) = lower_char c"
proof (cases "97 \<le> (of_char c :: nat) \<and> (of_char c :: nat) \<le> 122")
  case True
  define n where "n = (of_char c :: nat)"
  have n: "97 \<le> n" "n \<le> 122" using True by (simp_all add: n_def)
  have up: "upper_char c = char_of (n - 32)"
    using n by (simp add: upper_char_def n_def [symmetric] Let_def)
  have val: "(n - 32) mod 256 = n - 32" using n by simp
  have range: "65 \<le> n - 32" "n - 32 \<le> 90" "n - 32 + 32 = n" using n by simp_all
  have "lower_char (char_of (n - 32)) = char_of n"
    by (simp add: lower_char_def val range Let_def)
  moreover have "lower_char c = c"
    using n by (simp add: lower_char_def n_def [symmetric] Let_def)
  moreover have "(char_of n :: char) = c" by (simp add: n_def)
  ultimately show ?thesis using up by simp
next
  case False
  then show ?thesis by (auto simp add: lower_char_def upper_char_def Let_def)
qed

lemma lower_capitalize: "lower (capitalize s) = lower s"
proof (cases s)
  case Nil
  then show ?thesis by simp
next
  case (Cons c cs)
  have "lower_char (lower_char x) = lower_char x" for x
    by (auto simp add: lower_char_def Let_def)
  then show ?thesis using Cons by (simp add: lower_def lower_char_upper_char)
qed

lemma inverted_lookup:
  assumes "\<forall>(a', b') \<in> set xs. b' = b \<longrightarrow> a' = a"
    and "(a, b) \<in> set xs \<or> map_of d b = Some a"
  shows "map_of (fold (\<lambda>(a, b) d. AList.update b a d) xs d) b = Some a"
  using assms
proof (induction xs arbitrary: d)
  case Nil
  then show ?case by simp
next
  case (Cons x xs)
  obtain a' b' where x: "x = (a', b')" by (cases x)
  have rest: "\<forall>(a', b') \<in> set xs. b' = b \<longrightarrow> a' = a" using Cons.prems(1) by simp
  have "(a, b) \<in> set xs \<or> map_of (AList.update b' a' d) b = Some a"
    using Cons.prems x by (auto simp add: update_conv')
  from Cons.IH[OF rest this] show ?case using x by simp
qed

lemma inverted_set:
  "set (fold (\<lambda>(a, b) d. AList.update b a d) xs d) \<subseteq> set d \<union> (\<lambda>(a, b). (b, a)) ` set xs"
proof (induction xs arbitrary: d)
  case Nil
  then show ?case by simp
next
  case (Cons x xs)
  obtain a' b' where x: "x = (a', b')" by (cases x)
  have "set (AList.update b' a' d) \<subseteq> set d \<union> {(b', a')}"
    by (induction d) auto
  with Cons.IH[of "AList.update b' a' d"] show ?case using x by auto
qed

text \<open>
  C10. The claim: for every code of the directory, the code of its display name is the
  code itself. In a directory where \<open>iw\<close> and \<open>he\<close> both name \<open>hebrew\<close>, the inverted
  dict keeps \<open>he\<close> for the name, so \<open>iw\<close> has no entry in \<open>language_code_to_name\<close>:
  its display name is \<open>Iw\<close>, which is no name of the directory and comes back as it is.
\<close>

theorem shared_name_breaks_round_trip:
  "(''iw'', ''hebrew'') \<in> set two_hebrew_codes \<and>
   get_language_name two_hebrew_codes ''iw'' = ''Iw'' \<and>
   get_language_code two_hebrew_codes (get_language_name two_hebrew_codes ''iw'') = ''Iw'' \<and>
   get_language_code two_hebrew_codes (get_language_name two_hebrew_codes ''iw'') \<noteq> ''iw''"
  by code_simp

text \<open>
  C10, as the code has it. For a code of the directory whose name is in lower case and
  is the name of no other code, the code of its display name is the code itself.
\<close>

theorem code_name_round_trip:
  assumes "distinct (map fst L)"
    and "(code, name) \<in> set L"
    and "lower name = name"
    and "\<forall>(c, n) \<in> set L. n = name \<longrightarrow> c = code"
  shows "get_language_code L (get_language_name L code) = code"
proof -
  have m: "map_of (language_mapping L) name = Some code"
    unfolding language_mapping_def using assms(4) assms(2) by (intro inverted_lookup) auto
  then have mem: "(name, code) \<in> set (language_mapping L)" by (rule map_of_SomeD)
  have only: "\<forall>(n, c) \<in> set (language_mapping L). c = code \<longrightarrow> n = name"
  proof clarify
    fix n assume "(n, code) \<in> set (language_mapping L)"
    then have "(code, n) \<in> set L"
      using inverted_set[of L "[]"] unfolding language_mapping_def by auto
    with assms(1,2) show "n = name" by (meson eq_key_imp_eq_value)
  qed
  have "map_of (language_code_to_name L) code = Some name"
    unfolding language_code_to_name_def using only mem by (intro inverted_lookup) auto
  then have "get_language_name L code = capitalize name"
    by (simp add: get_language_name_def)
  then show ?thesis
    using m assms(3) by (simp add: get_language_code_def lower_capitalize)
qed

theorem code_name_round_trip_witness:
  "distinct (map fst example_languages) \<and> (''es'', ''spanish'') \<in> set example_languages \<and>
   lower ''spanish'' = ''spanish'' \<and>
   get_language_name example_languages ''es'' = ''Spanish'' \<and>
   get_language_code example_languages (get_language_name example_languages ''es'') = ''es''"
proof -
  have a: "distinct (map fst example_languages)" by (simp add: example_languages_def)
  have b: "(''es'', ''spanish'') \<in> set example_languages" by (simp add: example_languages_def)
  have c: "lower ''spanish'' = ''spanish''" by code_simp
  have d: "\<forall>(c, n) \<in> set example_languages. n = ''spanish'' \<longrightarrow> c = ''es''"
    by (simp add: example_languages_def)
  have e: "get_language_name example_languages ''es'' = ''Spanish''" by code_simp
  from code_name_round_trip[OF a b c d] a b c e show ?thesis by simp
qed

section \<open>The most used language\<close>

lemma dict_get_update:
  "dict_get (AList.update n v d) k = (if k = n then v else dict_get d k)"
  by (simp add: dict_get_def update_conv')

lemma count_fold_get:
  "dict_get (fold (\<lambda>n d. AList.update n (dict_get d n + 1) d) ns d) k =
     dict_get d k + int (count_list ns k)"
  by (induction ns arbitrary: d) (simp_all add: dict_get_update)

lemma count_targets_fold:
  "count_targets h =
     fold (\<lambda>n d. AList.update n (dict_get d n + 1) d) (map to_lang_name h) []"
  by (simp add: count_targets_def fold_map comp_def Let_def)

lemma count_targets_get:
  "dict_get (count_targets h) k = int (count_list (map to_lang_name h) k)"
proof -
  have "dict_get [] k = 0" by (simp add: dict_get_def)
  then show ?thesis by (simp only: count_targets_fold count_fold_get)
qed

lemma first_index_less: "x \<in> set xs \<Longrightarrow> first_index xs x < length xs"
  unfolding first_index_def by (induction xs) auto

lemma first_index_append:
  "first_index (xs @ [n]) a =
     (if a \<in> set xs then first_index xs a else if a = n then length xs else Suc (length xs))"
  unfolding first_index_def by (induction xs) auto

lemma count_keys_snoc:
  "map fst (fold (\<lambda>n d. AList.update n (dict_get d n + 1) d) (ns @ [n]) []) =
     (let ks = map fst (fold (\<lambda>n d. AList.update n (dict_get d n + 1) d) ns [])
      in if n \<in> set ks then ks else ks @ [n])"
  by (simp add: update_keys Let_def)

lemma count_keys_order:
  "set (map fst (fold (\<lambda>n d. AList.update n (dict_get d n + 1) d) ns [])) = set ns \<and>
   sorted_wrt (\<lambda>a b. first_index ns a < first_index ns b)
     (map fst (fold (\<lambda>n d. AList.update n (dict_get d n + 1) d) ns []))"
proof (induction ns rule: rev_induct)
  case Nil
  then show ?case by simp
next
  case (snoc n ns)
  let ?ks = "map fst (fold (\<lambda>n d. AList.update n (dict_get d n + 1) d) ns [])"
  let ?ks' = "map fst (fold (\<lambda>n d. AList.update n (dict_get d n + 1) d) (ns @ [n]) [])"
  have set: "set ?ks = set ns" and ord: "sorted_wrt (\<lambda>a b. first_index ns a < first_index ns b) ?ks"
    using snoc.IH by simp_all
  have ks': "?ks' = (if n \<in> set ns then ?ks else ?ks @ [n])"
    using count_keys_snoc[of ns n] set by (simp add: Let_def)
  have ord': "sorted_wrt (\<lambda>a b. first_index (ns @ [n]) a < first_index (ns @ [n]) b) ?ks"
    using ord set by (auto simp add: first_index_append elim!: sorted_wrt_mono_rel[rotated])
  show ?case
  proof (cases "n \<in> set ns")
    case True
    with ks' set ord' show ?thesis by auto
  next
    case False
    have "\<forall>a \<in> set ?ks. first_index (ns @ [n]) a < first_index (ns @ [n]) n"
      using set False by (auto simp add: first_index_append first_index_less)
    with ks' set ord' False show ?thesis by (auto simp add: sorted_wrt_append)
  qed
qed

lemma max_loop_result:
  "max_loop key best xs \<in> set (best # xs) \<and>
   (\<forall>x \<in> set (best # xs). key x \<le> key (max_loop key best xs)) \<and>
   (\<forall>x \<in> set (takeWhile (\<lambda>x. x \<noteq> max_loop key best xs) (best # xs)).
       key x < key (max_loop key best xs))"
proof (induction xs arbitrary: best)
  case Nil
  then show ?case by simp
next
  case (Cons x xs)
  let ?b = "if key x > key best then x else best"
  let ?r = "max_loop key ?b xs"
  have r: "max_loop key best (x # xs) = ?r" by simp
  from Cons.IH[of ?b]
  have mem: "?r \<in> set (?b # xs)"
    and le: "\<forall>y \<in> set (?b # xs). key y \<le> key ?r"
    and before: "\<forall>y \<in> set (takeWhile (\<lambda>y. y \<noteq> ?r) (?b # xs)). key y < key ?r"
    by blast+
  have b_le: "key ?b \<le> key ?r" using le by simp
  have 1: "?r \<in> set (best # x # xs)" using mem by (auto split: if_splits)
  have 2: "\<forall>y \<in> set (best # x # xs). key y \<le> key ?r"
    using le b_le by (auto split: if_splits)
  have 3: "\<forall>y \<in> set (takeWhile (\<lambda>y. y \<noteq> ?r) (best # x # xs)). key y < key ?r"
  proof (cases "key x > key best")
    case True
    then have "key best < key ?r" using b_le by simp
    moreover have "\<forall>y \<in> set (takeWhile (\<lambda>y. y \<noteq> ?r) (x # xs)). key y < key ?r"
      using before True by simp
    ultimately show ?thesis by auto
  next
    case False
    show ?thesis
    proof (cases "best = ?r")
      case True
      then show ?thesis by simp
    next
      case ne: False
      have bx: "\<forall>y \<in> set (takeWhile (\<lambda>y. y \<noteq> ?r) (best # xs)). key y < key ?r"
        using before False by simp
      then have kb: "key best < key ?r" and rest: "\<forall>y \<in> set (takeWhile (\<lambda>y. y \<noteq> ?r) xs). key y < key ?r"
        using ne by auto
      have "key x < key ?r" using False kb by simp
      with kb rest ne show ?thesis by auto
    qed
  qed
  show ?case unfolding r using 1 2 3 by blast
qed

text \<open>
  C9. On a non-empty history the most used language is a target language name of the
  history whose number of occurrences no other name exceeds, and among the names with
  that number it is the one that occurs first in the history. In particular, with three
  entries for Spanish and one for French it is Spanish.
\<close>

theorem most_used_is_first_maximum:
  assumes "conversation_history s \<noteq> []"
  shows "let names = map to_lang_name (conversation_history s)
         in \<exists>r. most_used_language s = Inr r \<and> r \<in> set names \<and>
                (\<forall>n. count_list names n \<le> count_list names r) \<and>
                (\<forall>n. count_list names n = count_list names r \<longrightarrow>
                     first_index names r \<le> first_index names n)"
proof -
  define names where "names = map to_lang_name (conversation_history s)"
  define langs where "langs = count_targets (conversation_history s)"
  define ks where "ks = map fst langs"
  have get: "dict_get langs k = int (count_list names k)" for k
    by (simp add: langs_def names_def count_targets_get)
  have keys: "set ks = set names"
    and ord: "sorted_wrt (\<lambda>a b. first_index names a < first_index names b) ks"
    using count_keys_order[of names] by (simp_all add: ks_def langs_def names_def count_targets_fold)
  have "names \<noteq> []" using assms by (simp add: names_def)
  with keys have "ks \<noteq> []" by auto
  then obtain k0 rest where ks: "ks = k0 # rest" by (cases ks) auto
  define r where "r = max_loop (dict_get langs) k0 rest"
  have res: "most_used_language s = Inr r"
    using assms ks by (simp add: most_used_language_def max_key_def r_def langs_def ks_def Let_def)
  from max_loop_result[of "dict_get langs" k0 rest]
  have mem: "r \<in> set ks"
    and le: "\<forall>x \<in> set ks. dict_get langs x \<le> dict_get langs r"
    and before: "\<forall>x \<in> set (takeWhile (\<lambda>x. x \<noteq> r) ks). dict_get langs x < dict_get langs r"
    unfolding r_def ks by blast+
  have r_names: "r \<in> set names" using mem keys by simp
  have max: "count_list names n \<le> count_list names r" for n
  proof (cases "n \<in> set names")
    case True
    then show ?thesis using le keys get by auto
  next
    case False
    then show ?thesis by (simp add: count_list_0_iff)
  qed
  have first: "first_index names r \<le> first_index names n"
    if eq: "count_list names n = count_list names r" for n
  proof (cases "n = r")
    case True
    then show ?thesis by simp
  next
    case False
    have "count_list names r \<noteq> 0" using r_names by (simp add: count_list_0_iff)
    with eq have "count_list names n \<noteq> 0" by simp
    then have "n \<in> set names" by (metis count_list_0_iff)
    then have "n \<in> set ks" using keys by simp
    from split_list_first[OF mem] obtain ys zs
      where ks_split: "ks = ys @ r # zs" and fresh: "r \<notin> set ys" by blast
    from fresh have "\<forall>x \<in> set ys. x \<noteq> r" by auto
    then have tw: "takeWhile (\<lambda>x. x \<noteq> r) ks = ys"
      unfolding ks_split by (simp add: takeWhile_append2)
    have "n \<notin> set ys"
      using before get eq unfolding tw by auto
    with \<open>n \<in> set ks\<close> False have "n \<in> set zs"
      unfolding ks_split by simp
    moreover from ord
    have "\<forall>b \<in> set zs. first_index names r < first_index names b"
      unfolding ks_split by (simp add: sorted_wrt_append)
    ultimately show ?thesis by auto
  qed
  show ?thesis
    unfolding Let_def names_def[symmetric] using res r_names max first by blast
qed

theorem most_used_is_first_maximum_witness:
  "conversation_history spanish_three_french_one \<noteq> [] \<and>
   map to_lang_name (conversation_history spanish_three_french_one) =
     [''French'', ''Spanish'', ''Spanish'', ''Spanish''] \<and>
   most_used_language spanish_three_french_one = Inr ''Spanish''"
proof -
  let ?names = "[''French'', ''Spanish'', ''Spanish'', ''Spanish'']"
  have names: "map to_lang_name (conversation_history spanish_three_french_one) = ?names"
    by (simp add: spanish_three_french_one_def)
  then have ne: "conversation_history spanish_three_french_one \<noteq> []" by auto
  from most_used_is_first_maximum[OF ne] names obtain r
    where r: "most_used_language spanish_three_french_one = Inr r"
      and mem: "r \<in> set ?names"
      and max: "\<forall>n. count_list ?names n \<le> count_list ?names r"
    unfolding Let_def by auto
  from max have "count_list ?names ''Spanish'' \<le> count_list ?names r" by blast
  with mem have "r = ''Spanish''" by auto
  with r names ne show ?thesis by simp
qed

section \<open>Exporting the history\<close>

lemma csv_rows_plain:
  "\<not> list_ex csv_special f \<Longrightarrow> csv_rows q (f @ rest) = csv_rows q rest"
  by (induction f) (auto simp add: csv_special_def)

lemma csv_rows_escape:
  "csv_rows True (csv_escape f @ rest) = csv_rows True rest"
  by (induction f) (auto simp add: csv_escape_def)

lemma csv_rows_field:
  "csv_rows False (csv_field f @ rest) = csv_rows False rest"
  by (simp add: csv_field_def csv_rows_plain csv_rows_escape)

lemma csv_rows_join:
  "csv_rows False (csv_join (map csv_field fs) @ rest) = csv_rows False rest"
proof (induction fs rule: csv_join.induct)
  case 1
  then show ?case by simp
next
  case (2 f)
  then show ?case by (simp add: csv_rows_field)
next
  case (3 f g fs)
  have "csv_rows False (csv_join (map csv_field (f # g # fs)) @ rest) =
        csv_rows False (csv_field f @ (CHR '','' # csv_join (map csv_field (g # fs)) @ rest))"
    by simp
  also have "\<dots> = csv_rows False (csv_join (map csv_field (g # fs)) @ rest)"
    by (simp only: csv_rows_field) simp
  finally show ?case using 3 by simp
qed

lemma csv_rows_row:
  "csv_rows False (csv_row fs @ rest) = Suc (csv_rows False rest)"
  by (simp add: csv_row_def csv_rows_join)

lemma csv_rows_body:
  "csv_rows False (concat (map (\<lambda>e. csv_row (g e)) h)) = length h"
  by (induction h) (simp_all add: csv_rows_row)

lemma csv_rows_to_csv: "csv_rows False (to_csv h) = length h + 1"
  by (simp add: to_csv_def csv_rows_row csv_rows_body)

text \<open>The export of the two-entry history, byte for byte.\<close>

lemma two_line_history_csv:
  "to_csv (conversation_history two_line_history) =
     ''timestamp,original,translation,from_lang,to_lang,from_lang_name,to_lang_name,input_type'' @ [CHR 0x0A] @
     ''2024-05-01 10:00:00,'' @ [CHR 0x22] @ ''one, two'' @ [CHR 0x22] @ '','' @ [CHR 0x22] @ ''uno, dos'' @ [CHR 0x22] @
       '',en,es,English,Spanish,'' @ [CHR 0x0A] @
     ''2024-05-01 10:00:05,'' @ [CHR 0x22] @ ''first line'' @ [CHR 0x0A] @ ''he said '' @
       [CHR 0x22, CHR 0x22] @ ''hi'' @ [CHR 0x22, CHR 0x22, CHR 0x22] @
       '',premiere ligne,en,fr,English,French,text'' @ [CHR 0x0A]"
  by code_simp

text \<open>
  C8. On a non-empty history \<open>export_history\<close> returns bytes whose number of rows is the
  length of the history plus one, the header row; on an empty history it returns
  nothing; and the state is as it was. A row is a record of the CSV text: a line break
  inside a quoted field does not end it.
\<close>

theorem export_has_one_row_per_entry:
  "snd (export_history s) = s \<and>
   (conversation_history s = [] \<longrightarrow> fst (export_history s) = None) \<and>
   (conversation_history s \<noteq> [] \<longrightarrow>
      (\<exists>bytes. fst (export_history s) = Some bytes \<and>
         csv_rows False bytes = length (conversation_history s) + 1))"
  by (simp add: export_history_def csv_rows_to_csv)

theorem export_has_one_row_per_entry_witness:
  "conversation_history two_line_history \<noteq> [] \<and>
   length (conversation_history two_line_history) = 2 \<and>
   fst (export_history two_line_history) = Some (to_csv (conversation_history two_line_history)) \<and>
   csv_rows False (to_csv (conversation_history two_line_history)) = 3 \<and>
   snd (export_history two_line_history) = two_line_history"
proof -
  have len: "length (conversation_history two_line_history) = 2"
    by (simp add: two_line_history_def)
  then have ne: "conversation_history two_line_history \<noteq> []" by auto
  from export_has_one_row_per_entry[of two_line_history] ne len
  have "\<exists>bytes. fst (export_history two_line_history) = Some bytes \<and> csv_rows False bytes = 3"
    and same: "snd (export_history two_line_history) = two_line_history"
    by simp_all
  moreover have "fst (export_history two_line_history) =
      Some (to_csv (conversation_history two_line_history))"
    using ne by (simp add: export_history_def)
  ultimately show ?thesis using ne len by auto
qed

end
